theory Spec2Isabelle
  imports Complex_Main
begin

section \<open>JavaScript values used by the orchestrator\<close>

text \<open>
  A JavaScript number is an IEEE double: a finite value, one of the two infinities, or NaN.
  The finite doubles are a subset of the reals and the relational operators compare finite
  doubles exactly, so a finite number is modelled by the real it denotes (the two zeros are
  the one real 0, which the comparisons and the truthiness test do not tell apart).
\<close>

datatype jsnum = Num real | PosInf | NegInf | NaN

text \<open>The operator \<^verbatim>\<open>a >= b\<close> on numbers: false as soon as one side is NaN.\<close>

fun js_ge :: "jsnum \<Rightarrow> jsnum \<Rightarrow> bool" where
  "js_ge NaN b = False"
| "js_ge a NaN = False"
| "js_ge PosInf b = True"
| "js_ge a NegInf = True"
| "js_ge (Num a) (Num b) = (b \<le> a)"
| "js_ge (Num a) PosInf = False"
| "js_ge NegInf b = False"

text \<open>The operators \<^verbatim>\<open>a > b\<close> and \<^verbatim>\<open>a < b\<close>, used to state properties.\<close>

fun js_gt :: "jsnum \<Rightarrow> jsnum \<Rightarrow> bool" where
  "js_gt NaN b = False"
| "js_gt a NaN = False"
| "js_gt NegInf b = False"
| "js_gt a PosInf = False"
| "js_gt (Num a) (Num b) = (b < a)"
| "js_gt (Num a) NegInf = True"
| "js_gt PosInf b = True"

definition js_lt :: "jsnum \<Rightarrow> jsnum \<Rightarrow> bool" where
  "js_lt a b = js_gt b a"

text \<open>Truthiness of a number: 0 and NaN are falsy.\<close>

fun truthy_num :: "jsnum \<Rightarrow> bool" where
  "truthy_num (Num x) = (x \<noteq> 0)"
| "truthy_num NaN = False"
| "truthy_num PosInf = True"
| "truthy_num NegInf = True"

text \<open>Truthiness of a string: only the empty string is falsy.\<close>

definition truthy_str :: "string \<Rightarrow> bool" where
  "truthy_str s = (s \<noteq> [])"

section \<open>Strings\<close>

text \<open>
  Strings are lists of characters; a character is one of the 256 code points of \<^typ>\<open>char\<close>,
  read as Latin-1. \<^verbatim>\<open>String.prototype.toLowerCase\<close> maps the upper-case letters
  A..Z (65..90) and the accented upper-case letters 192..222 other than the multiplication
  sign 215 to the code point 32 above, and leaves every other character alone.
\<close>

definition toLowerCase_char :: "char \<Rightarrow> char" where
  "toLowerCase_char c =
     (let n = (of_char c :: nat)
      in if (65 \<le> n \<and> n \<le> 90) \<or> (192 \<le> n \<and> n \<le> 222 \<and> n \<noteq> 215)
         then char_of (n + 32) else c)"

definition toLowerCase :: "string \<Rightarrow> string" where
  "toLowerCase s = map toLowerCase_char s"

text \<open>\<^verbatim>\<open>s.startsWith(k)\<close> and \<^verbatim>\<open>s.includes(k)\<close>: k occurs at the start of s, somewhere in s.\<close>

fun startsWith :: "string \<Rightarrow> string \<Rightarrow> bool" where
  "startsWith s [] = True"
| "startsWith [] (k # ks) = False"
| "startsWith (c # cs) (k # ks) = (c = k \<and> startsWith cs ks)"

fun js_includes :: "string \<Rightarrow> string \<Rightarrow> bool" where
  "js_includes [] k = (k = [])"
| "js_includes (c # cs) k = (startsWith (c # cs) k \<or> js_includes cs k)"

text \<open>
  What matching a keyword case-insensitively as a substring means: some contiguous part of
  the text is the keyword once lower-cased. This is the reading of the specification; the
  code computes it as \<open>js_includes (toLowerCase t) k\<close>.
\<close>

definition matches_ci :: "string \<Rightarrow> string \<Rightarrow> bool" where
  "matches_ci t k = (\<exists>u v w. t = u @ v @ w \<and> toLowerCase v = k)"

section \<open>Data model\<close>

record coordinate =
  lat :: jsnum
  lon :: jsnum

text \<open>An element of the panic response's \<^verbatim>\<open>safe_zones\<close>; the optional fields may be missing.\<close>

record safezone = coordinate +
  type :: "string option"
  name :: "string option"
  address :: "string option"
  phone :: "string option"
  distance_m :: "jsnum option"

text \<open>A resolved place: what geocodeLocation returns on success.\<close>

record location = coordinate +
  display :: string

text \<open>A point of a route polyline, \<^verbatim>\<open>[lat, lon]\<close>.\<close>

type_synonym latlng = "jsnum \<times> jsnum"

text \<open>
  One route of the \<^verbatim>\<open>/route\<close> response (any of its fields may be missing), and the same
  object as it is stored in the state, with the label added by fetchRoutes.
\<close>

record route_payload =
  coords :: "latlng list option"
  distance_km :: "jsnum option"
  time_min :: "jsnum option"
  safety_score :: "jsnum option"

record route = route_payload +
  safety_label :: string

text \<open>
  The body \<^verbatim>\<open>res.data\<close> of the \<^verbatim>\<open>/route\<close> response, with its fields
  \<^verbatim>\<open>fastest\<close> and \<^verbatim>\<open>safest\<close> (\<open>None\<close>: the field is missing or null), the body of
  the \<^verbatim>\<open>/panic\<close> response with its field \<^verbatim>\<open>safe_zones\<close>, and an element of the
  geocoder's answer, whose \<^verbatim>\<open>lat\<close> and \<^verbatim>\<open>lon\<close> are strings.
\<close>

record route_response =
  res_fastest :: "route_payload option"
  res_safest :: "route_payload option"

record panic_response =
  res_safe_zones :: "safezone list option"

record geo_hit =
  hit_lat :: string
  hit_lon :: string
  display_name :: string

text \<open>
  The outcome of an axios call: the promise is rejected (network or service failure), or
  it resolves and \<^verbatim>\<open>res.data\<close> is the value carried.
\<close>

datatype 'a remote = Rejected | Resolved 'a

text \<open>
  The state cells of the App component. \<open>alerts\<close> is not a cell of the source: it records
  the messages passed to \<^verbatim>\<open>alert\<close>, oldest first, so that notifications are part of
  the result. Console output is not modelled.
\<close>

record session =
  showMap :: bool
  cities :: "string list"
  city :: string
  srcQuery :: string
  dstQuery :: string
  srcCoords :: "location option"
  dstCoords :: "location option"
  fastest :: "route option"
  safest :: "route option"
  activeTab :: string
  safeZones :: "safezone list"
  reports :: "coordinate list"
  alerts :: "string list"

text \<open>The initial values given to useState.\<close>

definition initial_session :: session where
  "initial_session =
     \<lparr>showMap = False, cities = [], city = ''bengaluru'', srcQuery = [], dstQuery = [],
      srcCoords = None, dstCoords = None, fastest = None, safest = None,
      activeTab = ''safest'', safeZones = [], reports = [], alerts = []\<rparr>"

definition alert :: "string \<Rightarrow> session \<Rightarrow> session" where
  "alert msg st = st\<lparr>alerts := alerts st @ [msg]\<rparr>"

section \<open>Auto-fit bounds: MapBounds\<close>

text \<open>
  \<^verbatim>\<open>
  function MapBounds({ fastest, safest }) {
    const map = useMap();
    let coords = [];
    if (fastest?.coords?.length > 0) coords = coords.concat(fastest.coords);
    if (safest?.coords?.length > 0) coords = coords.concat(safest.coords);
    useEffect(() => {
      if (coords.length > 0) {
        map.fitBounds(coords, { padding: [40, 40] });
      }
    }, [fastest, safest]);
    return null;
  }
  \<close>
  \<open>route_coords r\<close> is the coordinate sequence a route contributes: that of
  \<^verbatim>\<open>r.coords\<close>, and the empty one when the route or its \<^verbatim>\<open>coords\<close> is missing.
  \<open>has_coords r\<close> is the test \<^verbatim>\<open>r?.coords?.length > 0\<close>.
\<close>

definition route_coords :: "route option \<Rightarrow> latlng list" where
  "route_coords r =
     (case r of None \<Rightarrow> [] | Some x \<Rightarrow> (case coords x of None \<Rightarrow> [] | Some cs \<Rightarrow> cs))"

definition has_coords :: "route option \<Rightarrow> bool" where
  "has_coords r =
     (case r of None \<Rightarrow> False
      | Some x \<Rightarrow> (case coords x of None \<Rightarrow> False | Some cs \<Rightarrow> 0 < length cs))"

definition MapBounds_coords :: "route option \<Rightarrow> route option \<Rightarrow> latlng list" where
  "MapBounds_coords f s =
     (let c0 = [];
          c1 = (if has_coords f then c0 @ route_coords f else c0);
          c2 = (if has_coords s then c1 @ route_coords s else c1)
      in c2)"

text \<open>
  What the effect does with the map: nothing (\<open>NoFit\<close>), or one call of fitBounds with
  the points and the padding.
\<close>

datatype bounds = NoFit | Region "latlng list" "nat \<times> nat"

definition boundsFor :: "route option \<Rightarrow> route option \<Rightarrow> bounds" where
  "boundsFor f s =
     (let cs = MapBounds_coords f s
      in if 0 < length cs then Region cs (40, 40) else NoFit)"

text \<open>
  The effect on the viewport. Leaflet's \<^verbatim>\<open>map.fitBounds\<close> is outside the repository
  and is a parameter.
\<close>

definition MapBounds ::
  "(latlng list \<Rightarrow> nat \<times> nat \<Rightarrow> 'v \<Rightarrow> 'v) \<Rightarrow> route option \<Rightarrow> route option \<Rightarrow> 'v \<Rightarrow> 'v" where
  "MapBounds fitBounds f s view =
     (case boundsFor f s of NoFit \<Rightarrow> view | Region cs pad \<Rightarrow> fitBounds cs pad view)"

section \<open>Helpers: getEmergencyNumber\<close>

text \<open>
  \<^verbatim>\<open>
  function getEmergencyNumber(zone) {
    if (zone.phone) return zone.phone;
    if (!zone.type) return "112";
    const t = zone.type.toLowerCase();
    if (t.includes("police")) return "100";
    if (t.includes("hospital")) return "108";
    if (t.includes("fire")) return "101";
    return "112";
  }
  \<close>
  A missing field reads as \<^verbatim>\<open>undefined\<close>, which is falsy, and so is the empty string.
\<close>

definition getEmergencyNumber :: "safezone \<Rightarrow> string" where
  "getEmergencyNumber zone =
     (let byType =
        (case type zone of
           None \<Rightarrow> ''112''
         | Some ty \<Rightarrow>
             if \<not> truthy_str ty then ''112''
             else let t = toLowerCase ty
                  in if js_includes t ''police'' then ''100''
                     else if js_includes t ''hospital'' then ''108''
                     else if js_includes t ''fire'' then ''101''
                     else ''112'')
      in case phone zone of
           None \<Rightarrow> byType
         | Some p \<Rightarrow> if truthy_str p then p else byType)"

section \<open>Helpers: getSafetyLabel\<close>

text \<open>
  \<^verbatim>\<open>
  function getSafetyLabel(score) {
    if (score >= 75) return "safe";
    if (score >= 40) return "moderate";
    return "unsafe";
  }
  \<close>
\<close>

definition getSafetyLabel :: "jsnum \<Rightarrow> string" where
  "getSafetyLabel score =
     (if js_ge score (Num 75) then ''safe''
      else if js_ge score (Num 40) then ''moderate''
      else ''unsafe'')"

section \<open>Geocoding\<close>

text \<open>
  \<^verbatim>\<open>
  const geocodeLocation = async (query, cityName) => {
    if (!query) return null;
    try {
      const res = await axios.get("https://nominatim.openstreetmap.org/search", {
        params: { q: `${query}, ${cityName}, India`, format: "json", limit: 1 },
      });
      if (res.data.length > 0) {
        return { lat: parseFloat(res.data[0].lat), lon: parseFloat(res.data[0].lon),
                 display: res.data[0].display_name };
      }
      return null;
    } catch (err) {
      console.error("Geocoding error:", err);
      return null;
    }
  };
  \<close>
  \<open>geocode_reply\<close> is the part after the await, applied to the outcome of the request.
  The remote service is opaque, so \<open>geocodeLocation\<close> takes the outcome \<open>res\<close> that the
  request has if it is issued; with an empty query no request is issued and \<open>res\<close> is not
  looked at. \<^verbatim>\<open>parseFloat\<close> is a parameter. \<open>None\<close> is the result \<^verbatim>\<open>null\<close>.
\<close>

definition geocode_reply :: "(string \<Rightarrow> jsnum) \<Rightarrow> geo_hit list remote \<Rightarrow> location option" where
  "geocode_reply parseFloat res =
     (case res of
        Rejected \<Rightarrow> None
      | Resolved hits \<Rightarrow>
          (case hits of
             [] \<Rightarrow> None
           | h # _ \<Rightarrow>
               Some \<lparr>lat = parseFloat (hit_lat h), lon = parseFloat (hit_lon h),
                     display = display_name h\<rparr>))"

definition geocodeLocation ::
  "(string \<Rightarrow> jsnum) \<Rightarrow> string \<Rightarrow> string \<Rightarrow> geo_hit list remote \<Rightarrow> location option" where
  "geocodeLocation parseFloat query cityName res =
     (if \<not> truthy_str query then None else geocode_reply parseFloat res)"

section \<open>Fetching routes\<close>

text \<open>
  \<^verbatim>\<open>
  const fetchRoutes = async () => {
    const src = await geocodeLocation(srcQuery, city);
    const dst = await geocodeLocation(dstQuery, city);
    if (!src || !dst) {
      alert("Invalid source or destination");
      return;
    }
    setSrcCoords(src);
    setDstCoords(dst);
    try {
      const res = await axios.get("http://127.0.0.1:8000/route", { params: {...} });
      console.log("API Response:", res.data);
      console.log("Fastest coords:", res.data.fastest.coords);
      console.log("Safest coords:", res.data.safest.coords);
      const fastestData = {
        ...res.data.fastest,
        safety_label: getSafetyLabel(res.data.fastest?.safety_score || 0),
      };
      const safestData = {
        ...res.data.safest,
        safety_label: getSafetyLabel(res.data.safest?.safety_score || 0),
      };
      setFastest(fastestData);
      setSafest(safestData);
      setSafeZones([]);
    } catch (err) {
      console.error(err);
      alert("Error fetching routes");
    }
  };
  \<close>
\<close>

text \<open>\<^verbatim>\<open>score || 0\<close>: a missing score, 0 and NaN are falsy and give 0.\<close>

definition or_zero :: "jsnum option \<Rightarrow> jsnum" where
  "or_zero v = (case v of None \<Rightarrow> Num 0 | Some x \<Rightarrow> if truthy_num x then x else Num 0)"

text \<open>The object \<^verbatim>\<open>{...p, safety_label: getSafetyLabel(p?.safety_score || 0)}\<close>.\<close>

definition with_label :: "route_payload \<Rightarrow> route" where
  "with_label p =
     \<lparr>coords = coords p, distance_km = distance_km p, time_min = time_min p,
      safety_score = safety_score p,
      safety_label = getSafetyLabel (or_zero (safety_score p))\<rparr>"

text \<open>
  Between the second geocoding and the route request: either the alert and the end of the
  call, or the two assignments and the pair the request is issued for.
\<close>

definition fetchRoutes_located ::
  "location option \<Rightarrow> location option \<Rightarrow> session \<Rightarrow> session \<times> (location \<times> location) option" where
  "fetchRoutes_located src dst st =
     (case src of
        None \<Rightarrow> (alert ''Invalid source or destination'' st, None)
      | Some s \<Rightarrow>
          (case dst of
             None \<Rightarrow> (alert ''Invalid source or destination'' st, None)
           | Some d \<Rightarrow> (st\<lparr>srcCoords := Some s, dstCoords := Some d\<rparr>, Some (s, d))))"

text \<open>
  The try block once the route request has settled. Reading \<^verbatim>\<open>.coords\<close> of a missing
  \<^verbatim>\<open>res.data.fastest\<close> or \<^verbatim>\<open>res.data.safest\<close> in the two console.log lines throws a
  TypeError, which the catch turns into the same alert as a rejected request; no setter has
  run by then.
\<close>

definition fetchRoutes_reply :: "route_response remote \<Rightarrow> session \<Rightarrow> session" where
  "fetchRoutes_reply res st =
     (case res of
        Rejected \<Rightarrow> alert ''Error fetching routes'' st
      | Resolved data \<Rightarrow>
          (case res_fastest data of
             None \<Rightarrow> alert ''Error fetching routes'' st
           | Some f \<Rightarrow>
               (case res_safest data of
                  None \<Rightarrow> alert ''Error fetching routes'' st
                | Some s \<Rightarrow>
                    st\<lparr>fastest := Some (with_label f), safest := Some (with_label s),
                       safeZones := []\<rparr>)))"

text \<open>
  One call of fetchRoutes that runs to its end with nothing else in between. \<open>geoSrc\<close>,
  \<open>geoDst\<close> and \<open>routeRes\<close> are the outcomes of the three requests, for those that are
  issued.
\<close>

definition fetchRoutes ::
  "(string \<Rightarrow> jsnum) \<Rightarrow> geo_hit list remote \<Rightarrow> geo_hit list remote \<Rightarrow> route_response remote
     \<Rightarrow> session \<Rightarrow> session" where
  "fetchRoutes parseFloat geoSrc geoDst routeRes st =
     (let src = geocodeLocation parseFloat (srcQuery st) (city st) geoSrc;
          dst = geocodeLocation parseFloat (dstQuery st) (city st) geoDst
      in case fetchRoutes_located src dst st of
           (st', None) \<Rightarrow> st'
         | (st', Some req) \<Rightarrow> fetchRoutes_reply routeRes st')"

text \<open>The route request of a call fails: it is rejected, or a route kind is missing.\<close>

definition route_failed :: "route_response remote \<Rightarrow> bool" where
  "route_failed res =
     (case res of
        Rejected \<Rightarrow> True
      | Resolved data \<Rightarrow> res_fastest data = None \<or> res_safest data = None)"

section \<open>SOS\<close>

text \<open>
  \<^verbatim>\<open>
  const triggerPanic = async () => {
    if (!srcCoords) return alert("Set a source first!");
    try {
      const res = await axios.get("http://127.0.0.1:8000/panic", { params: {...} });
      if (res.data && res.data.safe_zones) {
        setSafeZones(res.data.safe_zones);
      } else {
        alert("No safe locations found");
      }
    } catch (err) {
      console.error(err);
      alert("Panic API failed");
    }
  };
  \<close>
  An array is truthy in JavaScript, the empty one too, so the test
  \<^verbatim>\<open>res.data && res.data.safe_zones\<close> fails only for a missing body or a missing field.
\<close>

definition triggerPanic :: "panic_response option remote \<Rightarrow> session \<Rightarrow> session" where
  "triggerPanic res st =
     (case srcCoords st of
        None \<Rightarrow> alert ''Set a source first!'' st
      | Some src \<Rightarrow>
          (case res of
             Rejected \<Rightarrow> alert ''Panic API failed'' st
           | Resolved body \<Rightarrow>
               (case body of
                  None \<Rightarrow> alert ''No safe locations found'' st
                | Some data \<Rightarrow>
                    (case res_safe_zones data of
                       None \<Rightarrow> alert ''No safe locations found'' st
                     | Some zones \<Rightarrow> st\<lparr>safeZones := zones\<rparr>))))"

section \<open>Overlapping calls of fetchRoutes\<close>

text \<open>
  fetchRoutes suspends at its awaits, and the user can click again meanwhile. A call in
  flight is a task: it waits for the geocoding of the source (and remembers the
  destination query of the render it was started from), for the geocoding of the
  destination (and remembers the source it resolved), for the route response, or it has
  ended. An await of a promise that is already settled (geocodeLocation with an empty
  query) resumes before any other event is handled, so such steps are taken at once.
\<close>

datatype task = AwaitSrc string | AwaitDst "location option" | AwaitRoute | Finished

record config =
  sess :: session
  tasks :: "task list"

datatype event =
    SetSrcQuery string
  | SetDstQuery string
  | SetCity string
  | GetRoutes
  | GeocodeReturns nat "geo_hit list remote"
  | RouteReturns nat "route_response remote"

text \<open>After the source and after the destination are known: the new state and the task.\<close>

definition after_dst :: "location option \<Rightarrow> location option \<Rightarrow> session \<Rightarrow> session \<times> task" where
  "after_dst src dst st =
     (case fetchRoutes_located src dst st of
        (st', None) \<Rightarrow> (st', Finished)
      | (st', Some req) \<Rightarrow> (st', AwaitRoute))"

definition after_src :: "location option \<Rightarrow> string \<Rightarrow> session \<Rightarrow> session \<times> task" where
  "after_src src dstQ st =
     (if \<not> truthy_str dstQ then after_dst src None st else (st, AwaitDst src))"

definition start_fetchRoutes :: "session \<Rightarrow> session \<times> task" where
  "start_fetchRoutes st =
     (if \<not> truthy_str (srcQuery st) then after_src None (dstQuery st) st
      else (st, AwaitSrc (dstQuery st)))"

text \<open>
  One event. A response for a task that is not waiting for it does not exist and changes
  nothing. The continuation of a route request writes through the setters whatever other
  calls were started or have ended since: the source keeps no request counter.
\<close>

definition step :: "(string \<Rightarrow> jsnum) \<Rightarrow> config \<Rightarrow> event \<Rightarrow> config" where
  "step parseFloat c e =
     (case e of
        SetSrcQuery q \<Rightarrow> c\<lparr>sess := (sess c)\<lparr>srcQuery := q\<rparr>\<rparr>
      | SetDstQuery q \<Rightarrow> c\<lparr>sess := (sess c)\<lparr>dstQuery := q\<rparr>\<rparr>
      | SetCity q \<Rightarrow> c\<lparr>sess := (sess c)\<lparr>city := q\<rparr>\<rparr>
      | GetRoutes \<Rightarrow>
          (case start_fetchRoutes (sess c) of
             (st', t) \<Rightarrow> \<lparr>sess = st', tasks = tasks c @ [t]\<rparr>)
      | GeocodeReturns i res \<Rightarrow>
          (if i < length (tasks c) then
             (case tasks c ! i of
                AwaitSrc dstQ \<Rightarrow>
                  (case after_src (geocode_reply parseFloat res) dstQ (sess c) of
                     (st', t) \<Rightarrow> \<lparr>sess = st', tasks = (tasks c)[i := t]\<rparr>)
              | AwaitDst src \<Rightarrow>
                  (case after_dst src (geocode_reply parseFloat res) (sess c) of
                     (st', t) \<Rightarrow> \<lparr>sess = st', tasks = (tasks c)[i := t]\<rparr>)
              | AwaitRoute \<Rightarrow> c
              | Finished \<Rightarrow> c)
           else c)
      | RouteReturns i res \<Rightarrow>
          (if i < length (tasks c) then
             (case tasks c ! i of
                AwaitRoute \<Rightarrow>
                  \<lparr>sess = fetchRoutes_reply res (sess c), tasks = (tasks c)[i := Finished]\<rparr>
              | AwaitSrc dstQ \<Rightarrow> c
              | AwaitDst src \<Rightarrow> c
              | Finished \<Rightarrow> c)
           else c))"

definition run :: "(string \<Rightarrow> jsnum) \<Rightarrow> config \<Rightarrow> event list \<Rightarrow> config" where
  "run parseFloat c es = foldl (step parseFloat) c es"

section \<open>Sample data\<close>

text \<open>
  Concrete values for the examples below: a parseFloat that knows four numerals, three
  geocoder hits, a safe zone, the payloads of two different route responses, a session in
  which the two queries have been typed, and one in which an earlier call and an SOS have
  left routes, markers and a safe zone.
\<close>

definition sample_parseFloat :: "string \<Rightarrow> jsnum" where
  "sample_parseFloat s =
     (if s = ''12.97'' then Num 12.97
      else if s = ''77.64'' then Num 77.64
      else if s = ''77.60'' then Num 77.6
      else if s = ''12.93'' then Num 12.93
      else NaN)"

definition hit_indiranagar :: geo_hit where
  "hit_indiranagar = \<lparr>hit_lat = ''12.97'', hit_lon = ''77.64'', display_name = ''Indiranagar''\<rparr>"

definition hit_mg_road :: geo_hit where
  "hit_mg_road = \<lparr>hit_lat = ''12.97'', hit_lon = ''77.60'', display_name = ''MG Road''\<rparr>"

definition hit_koramangala :: geo_hit where
  "hit_koramangala = \<lparr>hit_lat = ''12.93'', hit_lon = ''77.60'', display_name = ''Koramangala''\<rparr>"

definition zone_police :: safezone where
  "zone_police = \<lparr>lat = Num 12.97, lon = Num 77.64, type = Some ''police'', name = None,
     address = None, phone = None, distance_m = Some (Num 250)\<rparr>"

definition payload_a_fastest :: route_payload where
  "payload_a_fastest = \<lparr>coords = Some [(Num 12.97, Num 77.64), (Num 12.97, Num 77.6)],
     distance_km = Some (Num 5.2), time_min = Some (Num 18), safety_score = Some (Num 60)\<rparr>"

definition payload_a_safest :: route_payload where
  "payload_a_safest = \<lparr>coords = Some [(Num 12.97, Num 77.64), (Num 12.93, Num 77.64), (Num 12.97, Num 77.6)],
     distance_km = Some (Num 6.1), time_min = Some (Num 24), safety_score = Some (Num 85)\<rparr>"

definition payload_b_fastest :: route_payload where
  "payload_b_fastest = \<lparr>coords = Some [(Num 12.97, Num 77.64), (Num 12.93, Num 77.6)],
     distance_km = Some (Num 4), time_min = Some (Num 15), safety_score = Some (Num 30)\<rparr>"

definition payload_b_safest :: route_payload where
  "payload_b_safest = \<lparr>coords = Some [(Num 12.97, Num 77.64), (Num 12.93, Num 77.64), (Num 12.93, Num 77.6)],
     distance_km = Some (Num 4.5), time_min = Some (Num 19), safety_score = Some (Num 75)\<rparr>"

definition response_a :: route_response where
  "response_a = \<lparr>res_fastest = Some payload_a_fastest, res_safest = Some payload_a_safest\<rparr>"

definition response_b :: route_response where
  "response_b = \<lparr>res_fastest = Some payload_b_fastest, res_safest = Some payload_b_safest\<rparr>"

definition typed_session :: session where
  "typed_session = initial_session\<lparr>showMap := True, srcQuery := ''Indiranagar'', dstQuery := ''MG Road''\<rparr>"

definition ready_session :: session where
  "ready_session = typed_session\<lparr>
     srcCoords := Some \<lparr>lat = Num 12.93, lon = Num 77.6, display = ''Koramangala''\<rparr>,
     dstCoords := Some \<lparr>lat = Num 12.97, lon = Num 77.6, display = ''MG Road''\<rparr>,
     fastest := Some (with_label payload_b_fastest),
     safest := Some (with_label payload_b_safest),
     safeZones := [zone_police]\<rparr>"

text \<open>
  Two calls in flight: a first click, its two geocodings, a new destination typed, a second
  click and its two geocodings. Both tasks now wait for their route response.
\<close>

definition two_in_flight :: config where
  "two_in_flight =
     run sample_parseFloat \<lparr>sess = typed_session, tasks = []\<rparr>
       [GetRoutes,
        GeocodeReturns 0 (Resolved [hit_indiranagar]),
        GeocodeReturns 0 (Resolved [hit_mg_road]),
        SetDstQuery ''Koramangala'',
        GetRoutes,
        GeocodeReturns 1 (Resolved [hit_indiranagar]),
        GeocodeReturns 1 (Resolved [hit_koramangala])]"

section \<open>Properties of getSafetyLabel\<close>

text \<open>
  C5. For every integer score the label is safe exactly when the score is at least 75,
  moderate exactly when it is at least 40 and below 75, and unsafe exactly when it is
  below 40; the boundary values 75, 74, 40 and 39 are labelled safe, moderate, moderate
  and unsafe.
\<close>

theorem getSafetyLabel_int_buckets:
  fixes s :: int
  shows "(getSafetyLabel (Num (of_int s)) = ''safe'') = (75 \<le> s)
       \<and> (getSafetyLabel (Num (of_int s)) = ''moderate'') = (40 \<le> s \<and> s < 75)
       \<and> (getSafetyLabel (Num (of_int s)) = ''unsafe'') = (s < 40)
       \<and> getSafetyLabel (Num 75) = ''safe''
       \<and> getSafetyLabel (Num 74) = ''moderate''
       \<and> getSafetyLabel (Num 40) = ''moderate''
       \<and> getSafetyLabel (Num 39) = ''unsafe''"
  by (auto simp: getSafetyLabel_def)

text \<open>
  C10. getSafetyLabel is total over every number, finite or not: the result is always one
  of the three labels (which are pairwise different), every score above 100 is labelled
  safe and every negative score is labelled unsafe.
\<close>

theorem getSafetyLabel_total:
  "getSafetyLabel x \<in> {''safe'', ''moderate'', ''unsafe''}
   \<and> (js_gt x (Num 100) \<longrightarrow> getSafetyLabel x = ''safe'')
   \<and> (js_lt x (Num 0) \<longrightarrow> getSafetyLabel x = ''unsafe'')"
  by (cases x) (auto simp: getSafetyLabel_def js_lt_def)

theorem getSafetyLabel_total_witness:
  "js_gt (Num 250) (Num 100) \<and> getSafetyLabel (Num 250) = ''safe''
   \<and> js_lt (Num (- 3)) (Num 0) \<and> getSafetyLabel (Num (- 3)) = ''unsafe''
   \<and> js_gt PosInf (Num 100) \<and> getSafetyLabel PosInf = ''safe''
   \<and> getSafetyLabel NaN \<in> {''safe'', ''moderate'', ''unsafe''}"
  using getSafetyLabel_total [of "Num 250"] getSafetyLabel_total [of "Num (- 3)"]
    getSafetyLabel_total [of PosInf] getSafetyLabel_total [of NaN]
  by (simp add: js_lt_def)

section \<open>Properties of getEmergencyNumber\<close>

lemma startsWith_iff: "startsWith s k = (\<exists>w. s = k @ w)"
  by (induction s k rule: startsWith.induct) auto

lemma js_includes_iff: "js_includes s k = (\<exists>u w. s = u @ k @ w)"
proof (induction s)
  case Nil
  then show ?case by auto
next
  case (Cons c cs)
  show ?case
  proof
    assume "js_includes (c # cs) k"
    then consider "startsWith (c # cs) k" | "js_includes cs k" by auto
    then show "\<exists>u w. c # cs = u @ k @ w"
    proof cases
      case 1
      then obtain w where "c # cs = k @ w" by (auto simp: startsWith_iff)
      then have "c # cs = [] @ k @ w" by simp
      then show ?thesis by blast
    next
      case 2
      then obtain u w where "cs = u @ k @ w" using Cons.IH by auto
      then have "c # cs = (c # u) @ k @ w" by simp
      then show ?thesis by blast
    qed
  next
    assume "\<exists>u w. c # cs = u @ k @ w"
    then obtain u w where e: "c # cs = u @ k @ w" by blast
    show "js_includes (c # cs) k"
    proof (cases u)
      case Nil
      with e have "startsWith (c # cs) k" by (auto simp: startsWith_iff)
      then show ?thesis by simp
    next
      case (Cons a u')
      with e have "cs = u' @ k @ w" by simp
      then have "js_includes cs k" using Cons.IH by blast
      then show ?thesis by simp
    qed
  qed
qed

text \<open>The code's test is the case-insensitive substring match.\<close>

lemma matches_ci_code: "matches_ci t k = js_includes (toLowerCase t) k"
proof
  assume "matches_ci t k"
  then obtain u v w where "t = u @ v @ w" "toLowerCase v = k"
    by (auto simp: matches_ci_def)
  then have "toLowerCase t = toLowerCase u @ k @ toLowerCase w"
    by (simp add: toLowerCase_def)
  then show "js_includes (toLowerCase t) k"
    unfolding js_includes_iff by blast
next
  assume "js_includes (toLowerCase t) k"
  then obtain a b where "map toLowerCase_char t = a @ k @ b"
    by (auto simp: js_includes_iff toLowerCase_def)
  then have "\<exists>u r. t = u @ r \<and> a = map toLowerCase_char u \<and> k @ b = map toLowerCase_char r"
    by (simp only: map_eq_append_conv)
  then obtain u r where t: "t = u @ r" and r: "map toLowerCase_char r = k @ b"
    by auto
  from r have "\<exists>v w. r = v @ w \<and> k = map toLowerCase_char v \<and> b = map toLowerCase_char w"
    by (simp only: map_eq_append_conv)
  then obtain v w where "r = v @ w" "map toLowerCase_char v = k"
    by auto
  with t have "t = u @ v @ w \<and> toLowerCase v = k"
    by (simp add: toLowerCase_def)
  then show "matches_ci t k"
    unfolding matches_ci_def by blast
qed

lemma lower_Police_Station: "toLowerCase ''Police Station'' = ''police station''"
  by code_simp

lemma lower_Community_Center: "toLowerCase ''Community Center'' = ''community center''"
  by code_simp

lemma lower_police: "toLowerCase ''police'' = ''police''"
  by code_simp

lemma lower_mixed: "toLowerCase ''FIRE and Police Hospital'' = ''fire and police hospital''"
  by code_simp

text \<open>The four examples of the specification.\<close>

lemma getEmergencyNumber_examples:
  "getEmergencyNumber \<lparr>lat = Num 1, lon = Num 2, type = Some ''police'', name = None,
      address = None, phone = Some ''555'', distance_m = None\<rparr> = ''555''"
  "getEmergencyNumber \<lparr>lat = Num 1, lon = Num 2, type = Some ''Police Station'', name = None,
      address = None, phone = None, distance_m = None\<rparr> = ''100''"
  "getEmergencyNumber \<lparr>lat = Num 1, lon = Num 2, type = None, name = None,
      address = None, phone = None, distance_m = None\<rparr> = ''112''"
  "getEmergencyNumber \<lparr>lat = Num 1, lon = Num 2, type = Some ''Community Center'', name = None,
      address = None, phone = None, distance_m = None\<rparr> = ''112''"
  by (simp_all add: getEmergencyNumber_def truthy_str_def lower_Police_Station
      lower_Community_Center)

text \<open>
  C6, as the code has it. The rules are applied in order and the first that matches wins:
  a phone that is present and not the empty string is returned verbatim, whatever the type;
  otherwise (phone missing or empty) a missing or empty type gives 112, and a type that
  matches police case-insensitively gives 100, else one that matches hospital gives 108,
  else one that matches fire gives 101, else 112.
\<close>

theorem getEmergencyNumber_rules:
  "(\<forall>p. phone z = Some p \<and> p \<noteq> [] \<longrightarrow> getEmergencyNumber z = p)
   \<and> (phone z = None \<or> phone z = Some [] \<longrightarrow>
        (type z = None \<longrightarrow> getEmergencyNumber z = ''112'')
      \<and> (\<forall>t. type z = Some t \<longrightarrow>
            getEmergencyNumber z =
              (if matches_ci t ''police'' then ''100''
               else if matches_ci t ''hospital'' then ''108''
               else if matches_ci t ''fire'' then ''101''
               else ''112'')))"
  by (auto simp: getEmergencyNumber_def truthy_str_def matches_ci_code Let_def
      toLowerCase_def split: option.splits)

theorem getEmergencyNumber_rules_witness:
  "getEmergencyNumber \<lparr>lat = Num 1, lon = Num 2, type = Some ''police'', name = None,
      address = None, phone = Some ''555'', distance_m = None\<rparr> = ''555''
   \<and> getEmergencyNumber \<lparr>lat = Num 1, lon = Num 2, type = None, name = None,
      address = None, phone = Some [], distance_m = None\<rparr> = ''112''
   \<and> getEmergencyNumber \<lparr>lat = Num 1, lon = Num 2, type = Some ''FIRE and Police Hospital'',
      name = None, address = None, phone = None, distance_m = None\<rparr> = ''100''"
  using
    getEmergencyNumber_rules [of "\<lparr>lat = Num 1, lon = Num 2, type = Some ''police'', name = None,
      address = None, phone = Some ''555'', distance_m = None\<rparr>"]
    getEmergencyNumber_rules [of "\<lparr>lat = Num 1, lon = Num 2, type = None, name = None,
      address = None, phone = Some [], distance_m = None\<rparr>"]
    getEmergencyNumber_rules [of "\<lparr>lat = Num 1, lon = Num 2,
      type = Some ''FIRE and Police Hospital'', name = None, address = None, phone = None,
      distance_m = None\<rparr>"]
  by (simp add: matches_ci_code lower_mixed)

text \<open>
  C6 as stated fails for a phone that is present but empty: the zone below has the phone
  \<open>''''\<close> and the type police, and the code answers 100 instead of the phone.
\<close>

theorem getEmergencyNumber_empty_phone:
  "phone \<lparr>lat = Num 1, lon = Num 2, type = Some ''police'', name = None,
      address = None, phone = Some [], distance_m = None\<rparr> = Some []
   \<and> getEmergencyNumber \<lparr>lat = Num 1, lon = Num 2, type = Some ''police'', name = None,
      address = None, phone = Some [], distance_m = None\<rparr> = ''100''
   \<and> getEmergencyNumber \<lparr>lat = Num 1, lon = Num 2, type = Some ''police'', name = None,
      address = None, phone = Some [], distance_m = None\<rparr> \<noteq> []"
  by (simp add: getEmergencyNumber_def truthy_str_def lower_police)

section \<open>Evaluation lemmas\<close>

lemmas sample_defs = sample_parseFloat_def hit_indiranagar_def hit_mg_road_def hit_koramangala_def
  zone_police_def payload_a_fastest_def payload_a_safest_def payload_b_fastest_def payload_b_safest_def
  typed_session_def ready_session_def initial_session_def

lemmas eval_defs = fetchRoutes_def fetchRoutes_located_def fetchRoutes_reply_def alert_def
  geocodeLocation_def geocode_reply_def truthy_str_def route_failed_def

lemmas run_defs = run_def step_def start_fetchRoutes_def after_src_def after_dst_def

lemma two_in_flight_tasks: "tasks two_in_flight = [AwaitRoute, AwaitRoute]"
  by (simp add: two_in_flight_def run_defs eval_defs sample_defs)

lemma two_in_flight_sess:
  "sess two_in_flight = typed_session\<lparr>dstQuery := ''Koramangala'',
      srcCoords := Some \<lparr>lat = Num 12.97, lon = Num 77.64, display = ''Indiranagar''\<rparr>,
      dstCoords := Some \<lparr>lat = Num 12.93, lon = Num 77.6, display = ''Koramangala''\<rparr>\<rparr>"
  by (simp add: two_in_flight_def run_defs eval_defs sample_defs)

lemma labels_differ: "with_label payload_a_fastest \<noteq> with_label payload_b_fastest"
  "with_label payload_a_safest \<noteq> with_label payload_b_safest"
  by (simp_all add: with_label_def sample_defs)

text \<open>A call of fetchRoutes with nothing in between is the run of its four events.\<close>

lemma fetchRoutes_is_run:
  assumes "srcQuery st \<noteq> []" and "dstQuery st \<noteq> []"
  shows "sess (run pf \<lparr>sess = st, tasks = []\<rparr>
           [GetRoutes, GeocodeReturns 0 geoSrc, GeocodeReturns 0 geoDst, RouteReturns 0 routeRes])
         = fetchRoutes pf geoSrc geoDst routeRes st"
  using assms
  by (auto simp: run_defs eval_defs Let_def split: option.splits remote.splits list.splits)

text \<open>
  The end-to-end scenario of the specification: scores 60 and 85 give the labels moderate
  and safe, and the safe zones are emptied.
\<close>

lemma end_to_end_scenario:
  "fetchRoutes sample_parseFloat (Resolved [hit_indiranagar]) (Resolved [hit_mg_road])
     (Resolved response_a) ready_session
   = ready_session\<lparr>
       srcCoords := Some \<lparr>lat = Num 12.97, lon = Num 77.64, display = ''Indiranagar''\<rparr>,
       dstCoords := Some \<lparr>lat = Num 12.97, lon = Num 77.6, display = ''MG Road''\<rparr>,
       fastest := Some (with_label payload_a_fastest),
       safest := Some (with_label payload_a_safest),
       safeZones := []\<rparr>"
  "safety_label (with_label payload_a_fastest) = ''moderate''"
  "safety_label (with_label payload_a_safest) = ''safe''"
  by (simp_all add: eval_defs sample_defs response_a_def with_label_def or_zero_def
      getSafetyLabel_def)

section \<open>Properties of fetchRoutes\<close>

text \<open>
  C2. A route response that lacks the fastest or the safest route is handled exactly as a
  rejected request: the call ends in the same state, with the alert, and fastest and safest
  keep the values they had before the call, whatever the geocodings gave.
\<close>

theorem fetchRoutes_malformed_payload:
  assumes "res_fastest data = None \<or> res_safest data = None"
  shows "fetchRoutes pf geoSrc geoDst (Resolved data) st = fetchRoutes pf geoSrc geoDst Rejected st
    \<and> fastest (fetchRoutes pf geoSrc geoDst (Resolved data) st) = fastest st
    \<and> safest (fetchRoutes pf geoSrc geoDst (Resolved data) st) = safest st"
  using assms
  by (auto simp: fetchRoutes_def fetchRoutes_located_def fetchRoutes_reply_def alert_def Let_def
      split: option.splits)

theorem fetchRoutes_malformed_payload_witness:
  "res_safest \<lparr>res_fastest = Some payload_a_fastest, res_safest = None\<rparr> = None
   \<and> fastest (fetchRoutes sample_parseFloat (Resolved [hit_indiranagar]) (Resolved [hit_mg_road])
        (Resolved \<lparr>res_fastest = Some payload_a_fastest, res_safest = None\<rparr>) ready_session)
      = Some (with_label payload_b_fastest)
   \<and> safest (fetchRoutes sample_parseFloat (Resolved [hit_indiranagar]) (Resolved [hit_mg_road])
        (Resolved \<lparr>res_fastest = Some payload_a_fastest, res_safest = None\<rparr>) ready_session)
      = Some (with_label payload_b_safest)
   \<and> alerts (fetchRoutes sample_parseFloat (Resolved [hit_indiranagar]) (Resolved [hit_mg_road])
        (Resolved \<lparr>res_fastest = Some payload_a_fastest, res_safest = None\<rparr>) ready_session)
      = [''Error fetching routes'']"
  using fetchRoutes_malformed_payload [of "\<lparr>res_fastest = Some payload_a_fastest, res_safest = None\<rparr>"
      sample_parseFloat "Resolved [hit_indiranagar]" "Resolved [hit_mg_road]" ready_session]
  by (simp add: fetchRoutes_def fetchRoutes_located_def fetchRoutes_reply_def alert_def
      geocodeLocation_def geocode_reply_def truthy_str_def ready_session_def typed_session_def
      initial_session_def hit_indiranagar_def hit_mg_road_def)

text \<open>
  C9. When both geocodings succeed and the route request fails (rejected, or a route kind
  missing), srcCoords and dstCoords hold the newly geocoded places after the call, and
  fastest and safest are as before.
\<close>

theorem fetchRoutes_coords_overwritten:
  assumes "geocodeLocation pf (srcQuery st) (city st) geoSrc = Some s"
    and "geocodeLocation pf (dstQuery st) (city st) geoDst = Some d"
    and "route_failed routeRes"
  shows "srcCoords (fetchRoutes pf geoSrc geoDst routeRes st) = Some s
    \<and> dstCoords (fetchRoutes pf geoSrc geoDst routeRes st) = Some d
    \<and> fastest (fetchRoutes pf geoSrc geoDst routeRes st) = fastest st
    \<and> safest (fetchRoutes pf geoSrc geoDst routeRes st) = safest st"
  using assms
  by (auto simp: fetchRoutes_def fetchRoutes_located_def fetchRoutes_reply_def alert_def Let_def
      route_failed_def split: option.splits remote.splits)

theorem fetchRoutes_coords_overwritten_witness:
  "geocodeLocation sample_parseFloat (srcQuery ready_session) (city ready_session)
      (Resolved [hit_indiranagar])
     = Some \<lparr>lat = Num 12.97, lon = Num 77.64, display = ''Indiranagar''\<rparr>
   \<and> route_failed Rejected
   \<and> srcCoords ready_session = Some \<lparr>lat = Num 12.93, lon = Num 77.6, display = ''Koramangala''\<rparr>
   \<and> srcCoords (fetchRoutes sample_parseFloat (Resolved [hit_indiranagar])
        (Resolved [hit_mg_road]) Rejected ready_session)
      = Some \<lparr>lat = Num 12.97, lon = Num 77.64, display = ''Indiranagar''\<rparr>
   \<and> fastest (fetchRoutes sample_parseFloat (Resolved [hit_indiranagar])
        (Resolved [hit_mg_road]) Rejected ready_session)
      = Some (with_label payload_b_fastest)"
proof -
  have s: "geocodeLocation sample_parseFloat (srcQuery ready_session) (city ready_session)
      (Resolved [hit_indiranagar])
     = Some \<lparr>lat = Num 12.97, lon = Num 77.64, display = ''Indiranagar''\<rparr>"
    by (simp add: eval_defs sample_defs)
  have d: "geocodeLocation sample_parseFloat (dstQuery ready_session) (city ready_session)
      (Resolved [hit_mg_road])
     = Some \<lparr>lat = Num 12.97, lon = Num 77.6, display = ''MG Road''\<rparr>"
    by (simp add: eval_defs sample_defs)
  have r: "route_failed Rejected"
    by (simp add: route_failed_def)
  have "srcCoords ready_session = Some \<lparr>lat = Num 12.93, lon = Num 77.6, display = ''Koramangala''\<rparr>"
    "fastest ready_session = Some (with_label payload_b_fastest)"
    by (simp_all add: ready_session_def)
  with s r fetchRoutes_coords_overwritten [OF s d r] show ?thesis
    by simp
qed

text \<open>
  C4, as the code has it. A call of fetchRoutes empties safeZones exactly when both
  geocodings succeed and the route request succeeds with both route kinds, and a call that
  fails leaves safeZones as it was; whenever the call changes fastest or safest, safeZones
  is empty afterwards, so no earlier safe zone stays next to new routes.
\<close>

theorem fetchRoutes_safeZones:
  "safeZones (fetchRoutes pf geoSrc geoDst routeRes st) =
     (if geocodeLocation pf (srcQuery st) (city st) geoSrc \<noteq> None
         \<and> geocodeLocation pf (dstQuery st) (city st) geoDst \<noteq> None
         \<and> \<not> route_failed routeRes
      then [] else safeZones st)
   \<and> (fastest (fetchRoutes pf geoSrc geoDst routeRes st) \<noteq> fastest st
        \<or> safest (fetchRoutes pf geoSrc geoDst routeRes st) \<noteq> safest st
      \<longrightarrow> safeZones (fetchRoutes pf geoSrc geoDst routeRes st) = [])"
  by (auto simp: fetchRoutes_def fetchRoutes_located_def fetchRoutes_reply_def alert_def Let_def
      route_failed_def split: option.splits remote.splits)

theorem fetchRoutes_safeZones_witness:
  "fastest (fetchRoutes sample_parseFloat (Resolved [hit_indiranagar]) (Resolved [hit_mg_road])
      (Resolved response_a) ready_session) \<noteq> fastest ready_session
   \<and> safeZones ready_session = [zone_police]
   \<and> safeZones (fetchRoutes sample_parseFloat (Resolved [hit_indiranagar]) (Resolved [hit_mg_road])
      (Resolved response_a) ready_session) = []"
proof -
  let ?st = "fetchRoutes sample_parseFloat (Resolved [hit_indiranagar]) (Resolved [hit_mg_road])
      (Resolved response_a) ready_session"
  have new: "fastest ?st = Some (with_label payload_a_fastest)"
    by (simp add: end_to_end_scenario(1))
  have old: "fastest ready_session = Some (with_label payload_b_fastest)"
    "safeZones ready_session = [zone_police]"
    by (simp_all add: ready_session_def)
  from new old labels_differ(1) have changed: "fastest ?st \<noteq> fastest ready_session"
    by simp
  have "fastest ?st \<noteq> fastest ready_session \<or> safest ?st \<noteq> safest ready_session
      \<longrightarrow> safeZones ?st = []"
    using fetchRoutes_safeZones [of sample_parseFloat "Resolved [hit_indiranagar]"
        "Resolved [hit_mg_road]" "Resolved response_a" ready_session]
    by (rule conjunct2)
  with changed have "safeZones ?st = []"
    by blast
  with changed old(2) show ?thesis
    by blast
qed

text \<open>
  C4 as stated fails: with a safe zone on the map, a call whose route request is rejected
  keeps the zone although srcCoords has moved to the new source, and so does a call whose
  destination is not found.
\<close>

theorem fetchRoutes_keeps_safeZones_on_failure:
  "safeZones ready_session = [zone_police]
   \<and> safeZones (fetchRoutes sample_parseFloat (Resolved [hit_indiranagar])
        (Resolved [hit_mg_road]) Rejected ready_session) = [zone_police]
   \<and> srcCoords (fetchRoutes sample_parseFloat (Resolved [hit_indiranagar])
        (Resolved [hit_mg_road]) Rejected ready_session)
      = Some \<lparr>lat = Num 12.97, lon = Num 77.64, display = ''Indiranagar''\<rparr>
   \<and> safeZones (fetchRoutes sample_parseFloat (Resolved [hit_indiranagar])
        (Resolved []) Rejected ready_session) = [zone_police]"
  by (simp add: eval_defs sample_defs)

section \<open>Properties of geocodeLocation\<close>

text \<open>
  C8, as the code has it. geocodeLocation answers null in exactly three cases, the empty
  query, a failed request and an answer without matches, and nothing in its result tells
  them apart; fetchRoutes reports each of them, for either place, by the one alert
  "Invalid source or destination" and changes nothing else.
\<close>

theorem geocodeLocation_null:
  "(geocodeLocation pf query cityName res = None)
     = (query = [] \<or> res = Rejected \<or> res = Resolved [])
   \<and> (geocodeLocation pf (srcQuery st) (city st) geoSrc = None
        \<or> geocodeLocation pf (dstQuery st) (city st) geoDst = None
      \<longrightarrow> fetchRoutes pf geoSrc geoDst routeRes st = alert ''Invalid source or destination'' st)"
  by (auto simp: eval_defs split: remote.splits list.splits option.splits)

theorem geocodeLocation_null_witness:
  "geocodeLocation sample_parseFloat (dstQuery ready_session) (city ready_session) Rejected = None
   \<and> alerts (fetchRoutes sample_parseFloat (Resolved [hit_indiranagar]) Rejected Rejected ready_session)
      = [''Invalid source or destination'']
   \<and> fetchRoutes sample_parseFloat (Resolved [hit_indiranagar]) Rejected Rejected ready_session
      = alert ''Invalid source or destination'' ready_session"
  using geocodeLocation_null [of sample_parseFloat "dstQuery ready_session" "city ready_session"
      Rejected ready_session "Resolved [hit_indiranagar]" Rejected Rejected]
  by (simp add: alert_def ready_session_def typed_session_def initial_session_def)

text \<open>
  C8 as stated fails: a rejected request, an answer without matches and an empty query all
  give null, and a call of fetchRoutes ends in the same state whether the geocoding of the
  destination was rejected or found nothing.
\<close>

theorem geocodeLocation_failures_coincide:
  "geocodeLocation sample_parseFloat ''MG Road'' ''bengaluru'' Rejected = None
   \<and> geocodeLocation sample_parseFloat ''MG Road'' ''bengaluru'' (Resolved []) = None
   \<and> geocodeLocation sample_parseFloat [] ''bengaluru'' (Resolved [hit_mg_road]) = None
   \<and> fetchRoutes sample_parseFloat (Resolved [hit_indiranagar]) Rejected
        (Resolved \<lparr>res_fastest = Some payload_a_fastest, res_safest = Some payload_a_safest\<rparr>)
        ready_session
      = fetchRoutes sample_parseFloat (Resolved [hit_indiranagar]) (Resolved [])
        (Resolved \<lparr>res_fastest = Some payload_a_fastest, res_safest = Some payload_a_safest\<rparr>)
        ready_session"
  by (simp add: eval_defs sample_defs)

section \<open>Properties of triggerPanic\<close>

text \<open>
  C3. The code at a panic response whose safe_zones is the empty array, with one safe zone
  on the map: the zone is removed and no alert is raised. The alert and the untouched
  overlay are what a response without the field gets.
\<close>

theorem triggerPanic_empty_result:
  "safeZones ready_session = [zone_police]
   \<and> safeZones (triggerPanic (Resolved (Some \<lparr>res_safe_zones = Some []\<rparr>)) ready_session) = []
   \<and> alerts (triggerPanic (Resolved (Some \<lparr>res_safe_zones = Some []\<rparr>)) ready_session)
      = alerts ready_session
   \<and> alerts (triggerPanic (Resolved (Some \<lparr>res_safe_zones = None\<rparr>)) ready_session)
      = alerts ready_session @ [''No safe locations found'']
   \<and> safeZones (triggerPanic (Resolved (Some \<lparr>res_safe_zones = None\<rparr>)) ready_session)
      = [zone_police]"
  by (simp add: triggerPanic_def alert_def sample_defs)

section \<open>Properties of MapBounds\<close>

text \<open>
  C7. With the coordinate sequence of an absent route taken as empty, boundsFor is NoFit
  exactly when both routes are absent or both coordinate sequences are empty, and then the
  viewport is returned as it was; otherwise fitBounds is called once, with the padding 40,
  on the coordinates of fastest followed by those of safest.
\<close>

theorem boundsFor_NoFit:
  "(boundsFor f s = NoFit)
     = ((f = None \<and> s = None) \<or> (route_coords f = [] \<and> route_coords s = []))
   \<and> (boundsFor f s = NoFit \<longrightarrow> MapBounds fitBounds f s view = view)
   \<and> (boundsFor f s \<noteq> NoFit \<longrightarrow>
        boundsFor f s = Region (route_coords f @ route_coords s) (40, 40)
      \<and> MapBounds fitBounds f s view = fitBounds (route_coords f @ route_coords s) (40, 40) view)"
  by (auto simp: boundsFor_def MapBounds_def MapBounds_coords_def route_coords_def has_coords_def
      Let_def split: option.splits)

theorem boundsFor_NoFit_witness:
  "boundsFor None None = NoFit
   \<and> MapBounds (\<lambda>cs pad v. cs) None None [(Num 0, Num 0)] = [(Num 0, Num 0)]
   \<and> boundsFor None (Some (with_label \<lparr>coords = Some [], distance_km = None, time_min = None,
        safety_score = None\<rparr>)) = NoFit
   \<and> boundsFor (Some (with_label payload_a_fastest)) (Some (with_label payload_a_safest)) \<noteq> NoFit
   \<and> MapBounds (\<lambda>cs pad v. cs) (Some (with_label payload_a_fastest))
        (Some (with_label payload_a_safest)) [(Num 0, Num 0)]
      = [(Num 12.97, Num 77.64), (Num 12.97, Num 77.6),
         (Num 12.97, Num 77.64), (Num 12.93, Num 77.64), (Num 12.97, Num 77.6)]
   \<and> boundsFor (Some (with_label payload_a_fastest)) None
      = Region [(Num 12.97, Num 77.64), (Num 12.97, Num 77.6)] (40, 40)"
  using
    boundsFor_NoFit [of None None "\<lambda>cs pad v. cs" "[(Num 0, Num 0)]"]
    boundsFor_NoFit [of None "Some (with_label \<lparr>coords = Some [], distance_km = None,
        time_min = None, safety_score = None\<rparr>)" "\<lambda>cs pad v. cs" "[(Num 0, Num 0)]"]
    boundsFor_NoFit [of "Some (with_label payload_a_fastest)" "Some (with_label payload_a_safest)"
      "\<lambda>cs pad v. cs" "[(Num 0, Num 0)]"]
    boundsFor_NoFit [of "Some (with_label payload_a_fastest)" None
      "\<lambda>cs pad v. cs" "[(Num 0, Num 0)]"]
  by (simp add: route_coords_def with_label_def payload_a_fastest_def payload_a_safest_def)

section \<open>Properties of overlapping calls\<close>

text \<open>
  C1, as the code has it. Route responses are applied in the order they arrive: when call
  A was started before call B, both wait for their route response, and the response of A
  arrives after the outcome of B, then fastest and safest end as the result of A.
\<close>

theorem last_arrival_wins:
  assumes "a < b" and "b < length (tasks c)"
    and "tasks c ! a = AwaitRoute" and "tasks c ! b = AwaitRoute"
    and "res_fastest dA = Some fA" and "res_safest dA = Some sA"
  shows "fastest (sess (run pf c [RouteReturns b resB, RouteReturns a (Resolved dA)]))
           = Some (with_label fA)
       \<and> safest (sess (run pf c [RouteReturns b resB, RouteReturns a (Resolved dA)]))
           = Some (with_label sA)"
  using assms
  by (simp add: run_def step_def fetchRoutes_reply_def)

theorem last_arrival_wins_witness:
  "(0::nat) < 1 \<and> 1 < length (tasks two_in_flight)
   \<and> tasks two_in_flight ! 0 = AwaitRoute \<and> tasks two_in_flight ! 1 = AwaitRoute
   \<and> res_fastest response_a = Some payload_a_fastest
   \<and> res_safest response_a = Some payload_a_safest
   \<and> fastest (sess (run sample_parseFloat two_in_flight
        [RouteReturns 1 (Resolved response_b), RouteReturns 0 (Resolved response_a)]))
      = Some (with_label payload_a_fastest)
   \<and> safest (sess (run sample_parseFloat two_in_flight
        [RouteReturns 1 (Resolved response_b), RouteReturns 0 (Resolved response_a)]))
      = Some (with_label payload_a_safest)"
proof -
  have h: "(0::nat) < 1" "1 < length (tasks two_in_flight)"
    "tasks two_in_flight ! 0 = AwaitRoute" "tasks two_in_flight ! 1 = AwaitRoute"
    "res_fastest response_a = Some payload_a_fastest"
    "res_safest response_a = Some payload_a_safest"
    by (simp_all add: two_in_flight_tasks response_a_def)
  from h last_arrival_wins [OF h, of sample_parseFloat "Resolved response_b"] show ?thesis
    by simp
qed

text \<open>
  C1 as stated fails: in the run below B's response arrives first and is shown, then the
  response of the superseded call A arrives and replaces it; the two results differ.
\<close>

theorem stale_response_overwrites:
  "tasks two_in_flight = [AwaitRoute, AwaitRoute]
   \<and> fastest (sess (run sample_parseFloat two_in_flight [RouteReturns 1 (Resolved response_b)]))
      = Some (with_label payload_b_fastest)
   \<and> fastest (sess (run sample_parseFloat two_in_flight
        [RouteReturns 1 (Resolved response_b), RouteReturns 0 (Resolved response_a)]))
      = Some (with_label payload_a_fastest)
   \<and> safest (sess (run sample_parseFloat two_in_flight
        [RouteReturns 1 (Resolved response_b), RouteReturns 0 (Resolved response_a)]))
      = Some (with_label payload_a_safest)
   \<and> with_label payload_a_fastest \<noteq> with_label payload_b_fastest
   \<and> with_label payload_a_safest \<noteq> with_label payload_b_safest"
  by (simp add: two_in_flight_tasks labels_differ run_def step_def fetchRoutes_reply_def
      response_a_def response_b_def)

end
